theory Spec2Isabelle
  imports Main "HOL-Library.Word"
begin

section \<open>The on-ledger module \<open>x402_content::content_access\<close> (Move)\<close>

text \<open>
  The module of \<^verbatim>\<open>move/sources/content_access.move\<close>. Move's \<open>u64\<close> is a 64-bit word,
  \<open>vector<u8>\<close> a byte string, an \<open>address\<close> a number. An object identifier is derived by
  the ledger from the digest of the creating transaction and the number of objects that
  transaction had created before; it is represented by that pair, and a \<open>UID\<close> by the
  \<open>ID\<close> it wraps.
\<close>

type_synonym u64 = "64 word"
type_synonym address = nat
type_synonym ID = "nat \<times> nat"

definition EInsufficientPayment :: u64 where
  "EInsufficientPayment = 0"

definition EContentNotFound :: u64 where
  "EContentNotFound = 1"

record ContentItem =
  item_id :: ID
  title :: string
  description :: string
  price :: u64
  content_url :: string
  creator :: address

record AccessReceipt =
  receipt_id :: ID
  content_id :: ID
  content_title :: string
  price_paid :: u64
  purchaser :: address
  timestamp :: u64

text \<open>\<open>sui::coin::Coin<SUI>\<close>: an object holding a balance; \<open>coin::value\<close> reads it.\<close>

record Coin =
  coin_id :: ID
  balance :: u64

definition coin_value :: "Coin \<Rightarrow> u64" where
  "coin_value c = balance c"

record Clock =
  clock_ms :: u64

definition timestamp_ms :: "Clock \<Rightarrow> u64" where
  "timestamp_ms clock = clock_ms clock"

datatype event =
  ContentCreated ID string u64 address
| ContentPurchased ID ID address u64 u64

text \<open>
  The transaction context: the sender, the digest of the transaction and the number of
  objects it has created. \<open>object::new\<close> takes the next identifier and counts it.
\<close>

record TxContext =
  sender :: address
  tx_hash :: nat
  ids_created :: nat

definition object_new :: "TxContext \<Rightarrow> ID \<times> TxContext" where
  "object_new ctx = ((tx_hash ctx, ids_created ctx), ctx\<lparr>ids_created := ids_created ctx + 1\<rparr>)"

definition uid_to_inner :: "ID \<Rightarrow> ID" where
  "uid_to_inner uid = uid"

definition object_id :: "ContentItem \<Rightarrow> ID" where
  "object_id content = item_id content"

text \<open>
  What a transaction leaves on the ledger: the coins and receipts with their owners, the
  shared content items, and the events emitted. \<open>transfer::public_transfer\<close> files an
  object under its new owner, \<open>transfer::share_object\<close> publishes it, \<open>event::emit\<close>
  appends to the event log.
\<close>

record ledger =
  coins :: "(address \<times> Coin) list"
  receipts :: "(address \<times> AccessReceipt) list"
  shared_content :: "ContentItem list"
  events :: "event list"

definition public_transfer_coin :: "Coin \<Rightarrow> address \<Rightarrow> ledger \<Rightarrow> ledger" where
  "public_transfer_coin c recipient l = l\<lparr>coins := coins l @ [(recipient, c)]\<rparr>"

definition public_transfer_receipt :: "AccessReceipt \<Rightarrow> address \<Rightarrow> ledger \<Rightarrow> ledger" where
  "public_transfer_receipt r recipient l = l\<lparr>receipts := receipts l @ [(recipient, r)]\<rparr>"

definition share_object :: "ContentItem \<Rightarrow> ledger \<Rightarrow> ledger" where
  "share_object content l = l\<lparr>shared_content := shared_content l @ [content]\<rparr>"

definition emit :: "event \<Rightarrow> ledger \<Rightarrow> ledger" where
  "emit e l = l\<lparr>events := events l @ [e]\<rparr>"

text \<open>
  An entry function runs on the context and the ledger. It either aborts with a code
  (\<open>Inl\<close>) or returns the context and ledger it leaves (\<open>Inr\<close>).
\<close>

type_synonym exec_state = "TxContext \<times> ledger"

definition create_content ::
  "string \<Rightarrow> string \<Rightarrow> u64 \<Rightarrow> string \<Rightarrow> exec_state \<Rightarrow> u64 + exec_state" where
  "create_content title' description' price' content_url' s =
     (let (ctx, l) = s;
          (content_uid, ctx1) = object_new ctx;
          content_id_inner = uid_to_inner content_uid;
          content = \<lparr>item_id = content_uid, title = title', description = description',
                     price = price', content_url = content_url', creator = sender ctx1\<rparr>;
          l1 = emit (ContentCreated content_id_inner (title content) price' (sender ctx1)) l;
          l2 = share_object content l1
      in Inr (ctx1, l2))"

definition purchase_and_grant_access ::
  "ContentItem \<Rightarrow> Coin \<Rightarrow> Clock \<Rightarrow> exec_state \<Rightarrow> u64 + exec_state" where
  "purchase_and_grant_access content payment clock s =
     (let (ctx, l) = s;
          price' = price content
      in if \<not> (coin_value payment \<ge> price') then Inl EInsufficientPayment
         else
           let l1 = public_transfer_coin payment (creator content) l;
               (receipt_uid, ctx1) = object_new ctx;
               receipt_id_inner = uid_to_inner receipt_uid;
               receipt = \<lparr>receipt_id = receipt_uid,
                          content_id = object_id content,
                          content_title = title content,
                          price_paid = price',
                          purchaser = sender ctx1,
                          timestamp = timestamp_ms clock\<rparr>;
               l2 = emit (ContentPurchased (object_id content) receipt_id_inner (sender ctx1)
                            price' (timestamp_ms clock)) l1;
               l3 = public_transfer_receipt receipt (sender ctx1) l2
           in Inr (ctx1, l3))"

text \<open>
  The ledger commits what an entry call leaves only when the call does not abort: an
  aborted transaction leaves the ledger as it found it and reports the abort code.
\<close>

datatype execution_status = Executed | MoveAbort u64

definition execute_entry ::
  "(exec_state \<Rightarrow> u64 + exec_state) \<Rightarrow> TxContext \<Rightarrow> ledger \<Rightarrow> execution_status \<times> ledger" where
  "execute_entry f ctx l =
     (case f (ctx, l) of
        Inl code \<Rightarrow> (MoveAbort code, l)
      | Inr (ctx', l') \<Rightarrow> (Executed, l'))"

text \<open>
  The commands bundled in one transaction run in order on the same context and ledger, and
  the first abort ends the transaction.
\<close>

definition then_call ::
  "(exec_state \<Rightarrow> u64 + exec_state) \<Rightarrow> (exec_state \<Rightarrow> u64 + exec_state) \<Rightarrow>
   exec_state \<Rightarrow> u64 + exec_state" where
  "then_call f g s = (case f s of Inl code \<Rightarrow> Inl code | Inr s' \<Rightarrow> g s')"

text \<open>What an address holds: the sum of its coins, and its receipts.\<close>

definition coins_of :: "ledger \<Rightarrow> address \<Rightarrow> Coin list" where
  "coins_of l a = map snd (filter (\<lambda>oc. fst oc = a) (coins l))"

definition balance_of :: "ledger \<Rightarrow> address \<Rightarrow> nat" where
  "balance_of l a = sum_list (map (\<lambda>c. unat (coin_value c)) (coins_of l a))"

definition receipts_of :: "ledger \<Rightarrow> address \<Rightarrow> AccessReceipt list" where
  "receipts_of l a = map snd (filter (\<lambda>oc. fst oc = a) (receipts l))"

text \<open>The read-only accessors of the module.\<close>

definition get_content_price :: "ContentItem \<Rightarrow> u64" where
  "get_content_price content = price content"

definition get_content_title :: "ContentItem \<Rightarrow> string" where
  "get_content_title content = title content"

definition get_content_url :: "ContentItem \<Rightarrow> string" where
  "get_content_url content = content_url content"

definition get_content_creator :: "ContentItem \<Rightarrow> address" where
  "get_content_creator content = creator content"

definition get_receipt_content_id :: "AccessReceipt \<Rightarrow> ID" where
  "get_receipt_content_id receipt = content_id receipt"

definition get_receipt_timestamp :: "AccessReceipt \<Rightarrow> u64" where
  "get_receipt_timestamp receipt = timestamp receipt"

section \<open>The JavaScript runtime seen by the SDK\<close>

text \<open>
  The SDK of \<^verbatim>\<open>packages/sdk/src/server.ts\<close> and \<^verbatim>\<open>client.ts\<close> is asynchronous code
  over a ledger client. A promise is modelled by what it does and how it settles: the
  list of calls it made to the outside (in order), and either the error it rejects with
  (\<open>Inl\<close>) or the value it resolves to (\<open>Inr\<close>).
\<close>

type_synonym byte = "8 word"

datatype js_error = Error string

text \<open>\<open>a || b\<close> on an optional string: the empty string and \<open>undefined\<close> are falsy.\<close>

definition js_or :: "string option \<Rightarrow> string \<Rightarrow> string" where
  "js_or a b = (case a of None \<Rightarrow> b | Some s \<Rightarrow> if s = [] then b else s)"

subsection \<open>Base64, as \<open>Buffer\<close> encodes and decodes it\<close>

text \<open>The alphabet: \<open>A\<close> to \<open>Z\<close> for 0 to 25, \<open>a\<close> to \<open>z\<close> for 26 to 51, the digits for
  52 to 61, then \<open>+\<close> and \<open>/\<close>.\<close>

definition b64_char :: "nat \<Rightarrow> char" where
  "b64_char n =
     (if n < 26 then char_of (n + 65)
      else if n < 52 then char_of (n + 71)
      else if n < 62 then char_of (n - 4)
      else if n = 62 then CHR ''+''
      else CHR ''/'')"

text \<open>\<open>Buffer.from(bytes).toString("base64")\<close>: three bytes give four characters, the last
  group is padded with \<open>=\<close>.\<close>

fun to_base64 :: "byte list \<Rightarrow> string" where
  "to_base64 [] = []"
| "to_base64 [a] =
     [b64_char (unat a div 4), b64_char (unat a mod 4 * 16), CHR ''='', CHR ''='']"
| "to_base64 [a, b] =
     [b64_char (unat a div 4), b64_char (unat a mod 4 * 16 + unat b div 16),
      b64_char (unat b mod 16 * 4), CHR ''='']"
| "to_base64 (a # b # c # rest) =
     [b64_char (unat a div 4), b64_char (unat a mod 4 * 16 + unat b div 16),
      b64_char (unat b mod 16 * 4 + unat c div 64), b64_char (unat c mod 64)] @ to_base64 rest"

definition b64_value :: "char \<Rightarrow> nat option" where
  "b64_value c =
     (let n = (of_char c :: nat) in
      if 65 \<le> n \<and> n \<le> 90 then Some (n - 65)
      else if 97 \<le> n \<and> n \<le> 122 then Some (n - 71)
      else if 48 \<le> n \<and> n \<le> 57 then Some (n + 4)
      else if c = CHR ''+'' \<or> c = CHR ''-'' then Some 62
      else if c = CHR ''/'' \<or> c = CHR ''_'' then Some 63
      else None)"

fun sextets_to_bytes :: "nat list \<Rightarrow> byte list" where
  "sextets_to_bytes (a # b # c # d # rest) =
     [of_nat (a * 4 + b div 16), of_nat (b mod 16 * 16 + c div 4), of_nat (c mod 4 * 64 + d)]
       @ sextets_to_bytes rest"
| "sextets_to_bytes [a, b, c] = [of_nat (a * 4 + b div 16), of_nat (b mod 16 * 16 + c div 4)]"
| "sextets_to_bytes [a, b] = [of_nat (a * 4 + b div 16)]"
| "sextets_to_bytes _ = []"

text \<open>\<open>Buffer.from(s, "base64")\<close> never throws: it reads up to the first \<open>=\<close>, accepts the
  URL-safe alphabet too and skips every other character.\<close>

definition from_base64 :: "string \<Rightarrow> byte list" where
  "from_base64 s =
     sextets_to_bytes (List.map_filter b64_value (takeWhile (\<lambda>c. c \<noteq> CHR ''='') s))"

subsection \<open>The ledger client and the keypair\<close>

text \<open>
  A programmable transaction as the \<open>Transaction\<close> builder holds it: the commands in the
  order they were added, the sender and the gas owner. An argument is the gas coin
  (\<open>tx.gas\<close>), an object input (\<open>tx.object(id)\<close>), a pure input, or a result of an earlier
  command (by the command's index and the position in its results).
\<close>

datatype Argument =
  GasCoin
| ObjectInput string
| PureInput string
| NestedResult nat nat

datatype Command =
  SplitCoins Argument "Argument list"
| MoveCall string "Argument list"

record Transaction =
  commands :: "Command list"
  tx_sender :: "string option"
  gasOwner :: "string option"

definition new_Transaction :: Transaction where
  "new_Transaction = \<lparr>commands = [], tx_sender = None, gasOwner = None\<rparr>"

text \<open>\<open>tx.splitCoins(coin, amounts)\<close> adds the command and returns its results, one per
  amount; \<open>const [coin] = ...\<close> takes the first.\<close>

definition splitCoins :: "Argument \<Rightarrow> string list \<Rightarrow> Transaction \<Rightarrow> Argument list \<times> Transaction" where
  "splitCoins coin amounts tx =
     (map (NestedResult (length (commands tx))) [0..<length amounts],
      tx\<lparr>commands := commands tx @ [SplitCoins coin (map PureInput amounts)]\<rparr>)"

definition moveCall :: "string \<Rightarrow> Argument list \<Rightarrow> Transaction \<Rightarrow> Transaction" where
  "moveCall target arguments tx = tx\<lparr>commands := commands tx @ [MoveCall target arguments]\<rparr>"

definition setSender :: "string \<Rightarrow> Transaction \<Rightarrow> Transaction" where
  "setSender a tx = tx\<lparr>tx_sender := Some a\<rparr>"

definition setGasOwner :: "string \<Rightarrow> Transaction \<Rightarrow> Transaction" where
  "setGasOwner a tx = tx\<lparr>gasOwner := Some a\<rparr>"


text \<open>What the ledger's JSON interface returns. A Move value is rendered as a string (an
  \<open>ID\<close>, an \<open>address\<close>, a \<open>u64\<close>), a number (the small integers), a boolean, an array of
  numbers (\<open>vector<u8>\<close>), a nested structure or null.\<close>

datatype MoveValue =
  MString string
| MNumber nat
| MBool bool
| MArray "nat list"
| MStruct
| MNull

datatype SuiParsedData =
  MoveObject "(string \<times> MoveValue) list"
| Package

record SuiObjectData =
  objectId :: string
  obj_content :: "SuiParsedData option"

text \<open>An entry of the page of owned objects: its \<open>data\<close> field may be missing.\<close>

type_synonym SuiObjectResponse = "SuiObjectData option"

text \<open>\<open>result.effects?.status?.status\<close> is the field \<open>exec_status\<close>, \<open>None\<close> when absent.\<close>

record TransactionEffects =
  exec_status :: "string option"

record SuiTransactionBlockResponse =
  digest :: string
  effects :: "TransactionEffects option"

definition effects_status :: "SuiTransactionBlockResponse \<Rightarrow> string option" where
  "effects_status result = (case effects result of None \<Rightarrow> None | Some e \<Rightarrow> exec_status e)"

text \<open>
  The ledger client. Every request either fails (the promise rejects) or answers.
  \<open>getOwnedObjects owner structType\<close> is the first page of the owner's objects of that
  type; the answer to \<open>getTransactionBlock digest\<close> depends on the time of the request
  (milliseconds); \<open>build\<close> is \<open>tx.build({ client })\<close>, which resolves the inputs through the
  client and serializes the envelope.
\<close>

record SuiClient =
  getOwnedObjects :: "string \<Rightarrow> string \<Rightarrow> js_error + SuiObjectResponse list"
  executeTransactionBlock :: "byte list \<Rightarrow> string list \<Rightarrow> js_error + SuiTransactionBlockResponse"
  getTransactionBlock :: "string \<Rightarrow> nat \<Rightarrow> js_error + SuiTransactionBlockResponse"
  build :: "Transaction \<Rightarrow> js_error + byte list"

record Ed25519Keypair =
  toSuiAddress :: string
  signTransaction :: "byte list \<Rightarrow> js_error + string"

text \<open>The calls a promise makes to the outside, in the order it makes them.\<close>

datatype effect =
  BuildTransaction Transaction
| SignTransaction string "byte list"
| ExecuteTransactionBlock "byte list" "string list"
| GetOwnedObjects string string
| GetTransactionBlock string
| DateNow nat
| SetTimeout nat
| ConsoleError string js_error

type_synonym 'a promise = "effect list \<times> (js_error + 'a)"

text \<open>\<open>await\<close> runs a promise and continues with its value, or stops with its rejection;
  \<open>try_catch\<close> hands a rejection to the handler; \<open>request\<close> is one call to the outside.\<close>

definition request :: "effect \<Rightarrow> js_error + 'a \<Rightarrow> 'a promise" where
  "request e answer = ([e], answer)"

definition await :: "'a promise \<Rightarrow> ('a \<Rightarrow> 'b promise) \<Rightarrow> 'b promise" where
  "await p k =
     (case snd p of
        Inl e \<Rightarrow> (fst p, Inl e)
      | Inr v \<Rightarrow> (fst p @ fst (k v), snd (k v)))"

definition try_catch :: "'a promise \<Rightarrow> (js_error \<Rightarrow> 'a promise) \<Rightarrow> 'a promise" where
  "try_catch p handler =
     (case snd p of
        Inl e \<Rightarrow> (fst p @ fst (handler e), snd (handler e))
      | Inr v \<Rightarrow> p)"

text \<open>\<open>String(v)\<close> of a field of a Move object; a missing field is \<open>undefined\<close>.\<close>

fun string_of_nat :: "nat \<Rightarrow> string" where
  "string_of_nat n =
     (if n < 10 then [''0123456789'' ! n]
      else string_of_nat (n div 10) @ [''0123456789'' ! (n mod 10)])"

fun join_commas :: "string list \<Rightarrow> string" where
  "join_commas [] = []"
| "join_commas [x] = x"
| "join_commas (x # y # ys) = x @ '','' @ join_commas (y # ys)"

definition js_String :: "MoveValue option \<Rightarrow> string" where
  "js_String v =
     (case v of
        None \<Rightarrow> ''undefined''
      | Some (MString s) \<Rightarrow> s
      | Some (MNumber n) \<Rightarrow> string_of_nat n
      | Some (MBool b) \<Rightarrow> (if b then ''true'' else ''false'')
      | Some (MArray ns) \<Rightarrow> join_commas (map string_of_nat ns)
      | Some MStruct \<Rightarrow> ''[object Object]''
      | Some MNull \<Rightarrow> ''null'')"

text \<open>\<open>a === s\<close> for a field \<open>a\<close> and a string \<open>s\<close>: no conversion.\<close>

definition strict_equals :: "MoveValue option \<Rightarrow> string \<Rightarrow> bool" where
  "strict_equals v s = (v = Some (MString s))"

text \<open>\<open>decodeString\<close>, the same private helper in both classes: an array is read as the
  bytes of a UTF-8 string, anything else goes through \<open>String\<close>.\<close>

definition decodeString :: "MoveValue option \<Rightarrow> string" where
  "decodeString vec =
     (case vec of
        Some (MArray ns) \<Rightarrow> map char_of ns
      | _ \<Rightarrow> js_String vec)"

section \<open>The shared types (\<^verbatim>\<open>packages/shared/src/types.ts\<close>)\<close>

record PaymentRequired =
  amount :: string
  recipient :: string
  transactionBytes :: string
  pay_description :: string

record X402Response =
  statusCode :: nat
  message :: string
  paymentRequired :: PaymentRequired

record ContentMetadata =
  meta_id :: string
  meta_title :: string
  meta_description :: string
  meta_price :: string
  contentUrl :: string
  meta_creator :: string

record AccessReceiptData =
  data_id :: string
  contentId :: string
  contentTitle :: string
  pricePaid :: string
  data_purchaser :: string
  data_timestamp :: string

record TransactionResult =
  result_digest :: string
  status :: string
  result_effects :: "TransactionEffects option"

section \<open>The server SDK (\<open>X402Server\<close>)\<close>

record ServerConfig =
  suiClient :: SuiClient
  config_packageId :: string
  config_sponsorKeypair :: "Ed25519Keypair option"
  contentModule :: "string option"

record PurchaseParams =
  contentObjectId :: string
  params_price :: string
  params_creator :: string
  buyerAddress :: string
  clockObjectId :: "string option"

record X402Server =
  client :: SuiClient
  packageId :: string
  sponsorKeypair :: "Ed25519Keypair option"
  moduleName :: string

definition new_X402Server :: "ServerConfig \<Rightarrow> X402Server" where
  "new_X402Server config =
     \<lparr>client = suiClient config,
      packageId = config_packageId config,
      sponsorKeypair = config_sponsorKeypair config,
      moduleName = js_or (contentModule config) ''content_access''\<rparr>"

definition createX402Server :: "ServerConfig \<Rightarrow> X402Server" where
  "createX402Server config = new_X402Server config"

text \<open>\<open>buildPurchaseTransaction\<close>. The destructuring \<open>const [coin] = ...\<close> takes the first
  result of the split; an argument that is \<open>undefined\<close> would make \<open>moveCall\<close> throw.\<close>

definition buildPurchaseTransaction :: "X402Server \<Rightarrow> PurchaseParams \<Rightarrow> Transaction promise" where
  "buildPurchaseTransaction srv params =
     (let tx0 = new_Transaction;
          (results, tx1) = splitCoins GasCoin [params_price params] tx0
      in case results of
           [] \<Rightarrow> ([], Inl (Error ''Invalid argument''))
         | coin # _ \<Rightarrow>
            (let tx2 = moveCall
                         (packageId srv @ ''::'' @ moduleName srv @ ''::purchase_and_grant_access'')
                         [ObjectInput (contentObjectId params),
                          coin,
                          ObjectInput (js_or (clockObjectId params) ''0x6'')] tx1;
                 tx3 = setSender (buyerAddress params) tx2;
                 tx4 = (case sponsorKeypair srv of
                          Some kp \<Rightarrow> setGasOwner (toSuiAddress kp) tx3
                        | None \<Rightarrow> tx3)
             in ([], Inr tx4)))"

definition generateX402Response :: "X402Server \<Rightarrow> ContentMetadata \<Rightarrow> string \<Rightarrow> X402Response promise" where
  "generateX402Response srv content buyer =
     await (buildPurchaseTransaction srv
              \<lparr>contentObjectId = meta_id content,
               params_price = meta_price content,
               params_creator = meta_creator content,
               buyerAddress = buyer,
               clockObjectId = None\<rparr>)
       (\<lambda>tx. await (request (BuildTransaction tx) (build (client srv) tx))
          (\<lambda>bytes.
             let base64Tx = to_base64 bytes
             in ([], Inr \<lparr>statusCode = 402,
                          message = ''Payment Required'',
                          paymentRequired =
                            \<lparr>amount = meta_price content,
                             recipient = meta_creator content,
                             transactionBytes = base64Tx,
                             pay_description = ''Purchase access to: '' @ meta_title content\<rparr>\<rparr>)))"

definition sponsorAndExecute :: "X402Server \<Rightarrow> string \<Rightarrow> string \<Rightarrow> string \<Rightarrow> TransactionResult promise" where
  "sponsorAndExecute srv transactionBytes' clientSignature clientPublicKey =
     (case sponsorKeypair srv of
        None \<Rightarrow> ([], Inl (Error ''Sponsor keypair required for transaction execution''))
      | Some kp \<Rightarrow>
         try_catch
           (let txBytes = from_base64 transactionBytes'
            in await (request (SignTransaction (toSuiAddress kp) txBytes) (signTransaction kp txBytes))
                 (\<lambda>sponsorSig.
                    await (request (ExecuteTransactionBlock txBytes [clientSignature, sponsorSig])
                             (executeTransactionBlock (client srv) txBytes [clientSignature, sponsorSig]))
                      (\<lambda>result.
                         ([], Inr \<lparr>result_digest = digest result,
                                   status = (if effects_status result = Some ''success''
                                             then ''success'' else ''failure''),
                                   result_effects = effects result\<rparr>))))
           (\<lambda>error. ([ConsoleError ''Transaction execution failed:'' error], Inl error)))"

text \<open>The type filter both classes send with the ownership query.\<close>

definition AccessReceipt_type :: "string \<Rightarrow> string \<Rightarrow> string" where
  "AccessReceipt_type pkg modname = pkg @ ''::'' @ modname @ ''::AccessReceipt''"

definition is_moveObject :: "SuiObjectResponse \<Rightarrow> bool" where
  "is_moveObject obj =
     (case obj of
        None \<Rightarrow> False
      | Some d \<Rightarrow> (case obj_content d of Some (MoveObject fs) \<Rightarrow> True | _ \<Rightarrow> False))"

definition object_fields :: "SuiObjectResponse \<Rightarrow> (string \<times> MoveValue) list" where
  "object_fields obj =
     (case obj of
        None \<Rightarrow> []
      | Some d \<Rightarrow> (case obj_content d of Some (MoveObject fs) \<Rightarrow> fs | _ \<Rightarrow> []))"

definition hasAccess :: "X402Server \<Rightarrow> string \<Rightarrow> string \<Rightarrow> bool promise" where
  "hasAccess srv ownerAddress contentId' =
     try_catch
       (let structType = AccessReceipt_type (packageId srv) (moduleName srv)
        in await (request (GetOwnedObjects ownerAddress structType)
                    (getOwnedObjects (client srv) ownerAddress structType))
             (\<lambda>objects.
                ([], Inr (list_ex
                            (\<lambda>obj. if is_moveObject obj
                                   then strict_equals (map_of (object_fields obj) ''content_id'') contentId'
                                   else False)
                            objects))))
       (\<lambda>error. ([ConsoleError ''Access check failed:'' error], Inr False))"

section \<open>The client SDK (\<open>X402Client\<close>)\<close>

record ClientConfig =
  cconfig_suiClient :: SuiClient
  cconfig_packageId :: string
  cconfig_moduleName :: "string option"

record X402Client =
  c_client :: SuiClient
  c_packageId :: string
  c_moduleName :: string

definition new_X402Client :: "ClientConfig \<Rightarrow> X402Client" where
  "new_X402Client config =
     \<lparr>c_client = cconfig_suiClient config,
      c_packageId = cconfig_packageId config,
      c_moduleName = js_or (cconfig_moduleName config) ''content_access''\<rparr>"

definition createX402Client :: "ClientConfig \<Rightarrow> X402Client" where
  "createX402Client config = new_X402Client config"

definition parseX402Response :: "X402Response \<Rightarrow> js_error + PaymentRequired" where
  "parseX402Response response =
     (if statusCode response \<noteq> 402
      then Inl (Error ''Invalid x402 response: status code must be 402'')
      else if transactionBytes (paymentRequired response) = []
      then Inl (Error ''Invalid x402 response: missing transaction bytes'')
      else Inr (paymentRequired response))"

text \<open>What \<open>getAccessReceipts\<close> makes of one owned Move object.\<close>

definition receipt_data :: "SuiObjectResponse \<Rightarrow> AccessReceiptData" where
  "receipt_data obj =
     (let fs = map_of (object_fields obj)
      in \<lparr>data_id = (case obj of Some d \<Rightarrow> objectId d | None \<Rightarrow> []),
          contentId = js_String (fs ''content_id''),
          contentTitle = decodeString (fs ''content_title''),
          pricePaid = js_String (fs ''price_paid''),
          data_purchaser = js_String (fs ''purchaser''),
          data_timestamp = js_String (fs ''timestamp'')\<rparr>)"

definition getAccessReceipts :: "X402Client \<Rightarrow> string \<Rightarrow> AccessReceiptData list promise" where
  "getAccessReceipts cl userAddress =
     try_catch
       (let structType = AccessReceipt_type (c_packageId cl) (c_moduleName cl)
        in await (request (GetOwnedObjects userAddress structType)
                    (getOwnedObjects (c_client cl) userAddress structType))
             (\<lambda>objects. ([], Inr (map receipt_data (filter is_moveObject objects)))))
       (\<lambda>error. ([ConsoleError ''Failed to fetch access receipts:'' error], Inr []))"

definition checkAccess :: "X402Client \<Rightarrow> string \<Rightarrow> string \<Rightarrow> bool promise" where
  "checkAccess cl userAddress contentId' =
     try_catch
       (await (getAccessReceipts cl userAddress)
          (\<lambda>receipts'. ([], Inr (list_ex (\<lambda>receipt. contentId receipt = contentId') receipts'))))
       (\<lambda>error. ([ConsoleError ''Access check failed:'' error], Inr False))"

text \<open>
  \<open>waitForTransaction\<close>. Time is in milliseconds. A request issued at time \<open>t\<close> is answered
  \<open>rpc_latency t\<close> later, and a timer of one second set at \<open>t\<close> fires at
  \<open>t + 1000 + timer_lag t\<close>. \<open>abandoned_at\<close> is the time at which the caller gives the
  request up, when it does; the method has no parameter through which it could learn it.
\<close>

record wait_env =
  rpc_latency :: "nat \<Rightarrow> nat"
  timer_lag :: "nat \<Rightarrow> nat"
  abandoned_at :: "nat option"

text \<open>One poll: success, failure, or neither yet (any other status, and a request that
  threw: the \<open>catch\<close> swallows it).\<close>

definition poll_outcome :: "js_error + SuiTransactionBlockResponse \<Rightarrow> bool option" where
  "poll_outcome answer =
     (case answer of
        Inl e \<Rightarrow> None
      | Inr result \<Rightarrow>
         if effects_status result = Some ''success'' then Some True
         else if effects_status result = Some ''failure'' then Some False
         else None)"

function wait_loop :: "X402Client \<Rightarrow> wait_env \<Rightarrow> string \<Rightarrow> int \<Rightarrow> nat \<Rightarrow> nat \<Rightarrow> bool promise" where
  "wait_loop cl env digest' timeoutMs startTime now =
     (if int now - int startTime < timeoutMs then
        (case poll_outcome (getTransactionBlock (c_client cl) digest' now) of
           Some b \<Rightarrow> ([DateNow now, GetTransactionBlock digest'], Inr b)
         | None \<Rightarrow>
            (let answered = now + rpc_latency env now;
                 woken = answered + 1000 + timer_lag env answered;
                 rest = wait_loop cl env digest' timeoutMs startTime woken
             in (DateNow now # GetTransactionBlock digest' # SetTimeout 1000 # fst rest, snd rest)))
      else ([DateNow now], Inl (Error ''Transaction confirmation timeout'')))"
  by pat_completeness auto
termination
  by (relation "measure (\<lambda>(cl, env, d, timeoutMs, startTime, now).
                  nat (int startTime + timeoutMs - int now))") auto

text \<open>The call at time \<open>t0\<close>. \<open>timeoutMs\<close> is a finite number of milliseconds, of
  either sign, and defaults to 30000.\<close>

definition waitForTransaction ::
  "X402Client \<Rightarrow> wait_env \<Rightarrow> string \<Rightarrow> int option \<Rightarrow> nat \<Rightarrow> bool promise" where
  "waitForTransaction cl env digest' timeoutMs t0 =
     (let timeout = (case timeoutMs of None \<Rightarrow> 30000 | Some t \<Rightarrow> t);
          startTime = t0;
          loop = wait_loop cl env digest' timeout startTime t0
      in (DateNow t0 # fst loop, snd loop))"

section \<open>The vocabulary of the properties\<close>

text \<open>The two errors the SDK throws by message, under the names the specification gives
  them.\<close>

definition SponsorNotConfigured :: js_error where
  "SponsorNotConfigured = Error ''Sponsor keypair required for transaction execution''"

definition ConfirmationTimeout :: js_error where
  "ConfirmationTimeout = Error ''Transaction confirmation timeout''"

text \<open>A promise has submitted an envelope when it has called
  \<open>executeTransactionBlock\<close>.\<close>

definition submitted :: "'a promise \<Rightarrow> bool" where
  "submitted p =
     list_ex (\<lambda>e. case e of ExecuteTransactionBlock bytes signatures \<Rightarrow> True | _ \<Rightarrow> False) (fst p)"

text \<open>An envelope belongs to a content item (its reference and its current price) and a
  buyer when building the envelope for them again gives the same bytes.\<close>

definition rederives :: "X402Server \<Rightarrow> ContentMetadata \<Rightarrow> string \<Rightarrow> string \<Rightarrow> bool" where
  "rederives srv content buyer envelope =
     (case snd (generateX402Response srv content buyer) of
        Inl e \<Rightarrow> False
      | Inr response \<Rightarrow> transactionBytes (paymentRequired response) = envelope)"

text \<open>An owned object is a receipt for a content id when it is a Move object whose
  \<open>content_id\<close> field is that string. The ledger renders an \<open>ID\<close> as a string:
  \<open>content_id_is_string\<close> says so of an owned object (and holds of every entry that is
  not a Move object).\<close>

definition receipt_for :: "string \<Rightarrow> SuiObjectResponse \<Rightarrow> bool" where
  "receipt_for contentId' obj =
     (is_moveObject obj \<and> map_of (object_fields obj) ''content_id'' = Some (MString contentId'))"

definition content_id_is_string :: "SuiObjectResponse \<Rightarrow> bool" where
  "content_id_is_string obj =
     (case map_of (object_fields obj) ''content_id'' of
        Some (MString s) \<Rightarrow> True
      | _ \<Rightarrow> \<not> is_moveObject obj)"

text \<open>The number of polls in a trace; the time at which the \<open>k\<close>-th poll of a call at
  \<open>t0\<close> starts when no earlier poll has ended the loop; whether a time is before the
  deadline; and what a poll at a given time sees.\<close>

definition polls :: "effect list \<Rightarrow> nat" where
  "polls tr = length (filter (\<lambda>e. case e of GetTransactionBlock d \<Rightarrow> True | _ \<Rightarrow> False) tr)"

fun poll_time :: "wait_env \<Rightarrow> nat \<Rightarrow> nat \<Rightarrow> nat" where
  "poll_time env t0 0 = t0"
| "poll_time env t0 (Suc k) =
     (let answered = poll_time env t0 k + rpc_latency env (poll_time env t0 k)
      in answered + 1000 + timer_lag env answered)"

definition in_time :: "int \<Rightarrow> nat \<Rightarrow> nat \<Rightarrow> bool" where
  "in_time timeoutMs t0 t = (int t - int t0 < timeoutMs)"

definition seen :: "X402Client \<Rightarrow> string \<Rightarrow> nat \<Rightarrow> bool option" where
  "seen cl digest' t = poll_outcome (getTransactionBlock (c_client cl) digest' t)"

section \<open>A scenario: one article, one buyer\<close>

text \<open>
  The content item of the deployment notes (price 1000000000, creator \<open>12\<close>), a buyer
  \<open>11\<close> whose transaction has digest \<open>9\<close>, and three payment coins: exact, short and
  generous.
\<close>

definition article :: ContentItem where
  "article = \<lparr>item_id = (7, 0), title = ''Premium Article'',
              description = ''An exclusive article about x402'', price = 1000000000,
              content_url = ''https://content.example.com/article-1'', creator = 12\<rparr>"

definition exact_payment :: Coin where
  "exact_payment = \<lparr>coin_id = (8, 0), balance = 1000000000\<rparr>"

definition short_payment :: Coin where
  "short_payment = \<lparr>coin_id = (8, 1), balance = 500000000\<rparr>"

definition generous_payment :: Coin where
  "generous_payment = \<lparr>coin_id = (8, 2), balance = 1500000000\<rparr>"

definition noon :: Clock where
  "noon = \<lparr>clock_ms = 1700000000000\<rparr>"

definition buyer_ctx :: TxContext where
  "buyer_ctx = \<lparr>sender = 11, tx_hash = 9, ids_created = 0\<rparr>"

definition start_ledger :: ledger where
  "start_ledger = \<lparr>coins = [(12, \<lparr>coin_id = (6, 0), balance = 40\<rparr>)], receipts = [],
                   shared_content = [article], events = []\<rparr>"

section \<open>A scenario: a ledger, a server and a client\<close>

text \<open>
  A ledger client \<open>testnet\<close> on which the buyer \<open>0xB0B\<close> owns one receipt, for the article
  \<open>0xA1\<close>, on which every submission succeeds, and on which the transaction \<open>0xD1\<close>
  becomes visible, as a success, 2500 ms after time 0; its envelopes are serialized as
  the text of their commands followed by the sender. A ledger client \<open>offline\<close> whose
  every request fails. A server with a sponsor key, one without, and one that is offline;
  the matching clients; the article and a cheaper note; and two callers of
  \<open>waitForTransaction\<close>, one of which gives up at once.
\<close>

fun argument_text :: "Argument \<Rightarrow> string" where
  "argument_text GasCoin = ''gas''"
| "argument_text (ObjectInput oid) = oid"
| "argument_text (PureInput p) = p"
| "argument_text (NestedResult i j) = ''coin''"

fun command_text :: "Command \<Rightarrow> string" where
  "command_text (SplitCoins c amounts) = ''split '' @ concat (map argument_text (c # amounts))"
| "command_text (MoveCall target arguments) = ''call '' @ concat (map argument_text arguments)"

definition text_build :: "Transaction \<Rightarrow> js_error + byte list" where
  "text_build tx =
     Inr (map of_char (concat (map command_text (commands tx)) @ js_or (tx_sender tx) ''-''))"

definition receipt_object :: "string \<Rightarrow> string \<Rightarrow> SuiObjectResponse" where
  "receipt_object oid cid =
     Some \<lparr>objectId = oid,
           obj_content = Some (MoveObject
             [(''content_id'', MString cid),
              (''content_title'', MArray [72, 105]),
              (''price_paid'', MString ''1000000000''),
              (''purchaser'', MString ''0xB0B''),
              (''timestamp'', MString ''1700000000000'')])\<rparr>"

definition testnet :: SuiClient where
  "testnet =
     \<lparr>getOwnedObjects = (\<lambda>owner structType.
          if owner = ''0xB0B'' then Inr [None, receipt_object ''0xR1'' ''0xA1''] else Inr []),
      executeTransactionBlock = (\<lambda>bytes signatures.
          Inr \<lparr>digest = ''0xD1'', effects = Some \<lparr>exec_status = Some ''success''\<rparr>\<rparr>),
      getTransactionBlock = (\<lambda>digest' t.
          if t < 2500 then Inl (Error ''not found'')
          else Inr \<lparr>digest = digest', effects = Some \<lparr>exec_status = Some ''success''\<rparr>\<rparr>),
      build = text_build\<rparr>"

definition offline :: SuiClient where
  "offline =
     \<lparr>getOwnedObjects = (\<lambda>owner structType. Inl (Error ''fetch failed'')),
      executeTransactionBlock = (\<lambda>bytes signatures. Inl (Error ''fetch failed'')),
      getTransactionBlock = (\<lambda>digest' t. Inl (Error ''fetch failed'')),
      build = (\<lambda>tx. Inl (Error ''fetch failed''))\<rparr>"

definition sponsor_key :: Ed25519Keypair where
  "sponsor_key = \<lparr>toSuiAddress = ''0x50'', signTransaction = (\<lambda>bytes. Inr ''sponsor-signature'')\<rparr>"

definition sponsored_server :: X402Server where
  "sponsored_server =
     createX402Server \<lparr>suiClient = testnet, config_packageId = ''0x402'',
                       config_sponsorKeypair = Some sponsor_key, contentModule = None\<rparr>"

definition plain_server :: X402Server where
  "plain_server =
     createX402Server \<lparr>suiClient = testnet, config_packageId = ''0x402'',
                       config_sponsorKeypair = None, contentModule = None\<rparr>"

definition offline_server :: X402Server where
  "offline_server =
     createX402Server \<lparr>suiClient = offline, config_packageId = ''0x402'',
                       config_sponsorKeypair = None, contentModule = None\<rparr>"

definition testnet_client :: X402Client where
  "testnet_client =
     createX402Client \<lparr>cconfig_suiClient = testnet, cconfig_packageId = ''0x402'',
                       cconfig_moduleName = None\<rparr>"

definition offline_client :: X402Client where
  "offline_client =
     createX402Client \<lparr>cconfig_suiClient = offline, cconfig_packageId = ''0x402'',
                       cconfig_moduleName = None\<rparr>"

definition article_meta :: ContentMetadata where
  "article_meta =
     \<lparr>meta_id = ''0xA1'', meta_title = ''Premium Article'',
      meta_description = ''An exclusive article about x402'', meta_price = ''1000000000'',
      contentUrl = ''https://content.example.com/article-1'', meta_creator = ''0xC4''\<rparr>"

definition note_meta :: ContentMetadata where
  "note_meta =
     \<lparr>meta_id = ''0xA2'', meta_title = ''Short Note'', meta_description = ''A note'',
      meta_price = ''5'', contentUrl = ''https://content.example.com/note-2'',
      meta_creator = ''0xC4''\<rparr>"



definition note_envelope :: string where
  "note_envelope = ''c3BsaXQgZ2FzNWNhbGwgMHhBMmNvaW4weDYweEIwQg==''"

definition steady :: wait_env where
  "steady = \<lparr>rpc_latency = (\<lambda>t. 20), timer_lag = (\<lambda>t. 0), abandoned_at = None\<rparr>"

definition impatient :: wait_env where
  "impatient = \<lparr>rpc_latency = (\<lambda>t. 0), timer_lag = (\<lambda>t. 0), abandoned_at = Some 0\<rparr>"

section \<open>Properties of the purchase\<close>

lemma purchase_aborts:
  "coin_value payment < price content \<Longrightarrow>
   purchase_and_grant_access content payment clock (ctx, l) = Inl EInsufficientPayment"
  by (simp add: purchase_and_grant_access_def Let_def not_le)

lemma purchase_succeeds:
  "price content \<le> coin_value payment \<Longrightarrow>
   purchase_and_grant_access content payment clock (ctx, l) =
     Inr (ctx\<lparr>ids_created := ids_created ctx + 1\<rparr>,
          l\<lparr>coins := coins l @ [(creator content, payment)],
            events := events l @ [ContentPurchased (item_id content) (tx_hash ctx, ids_created ctx)
                                    (sender ctx) (price content) (clock_ms clock)],
            receipts := receipts l @ [(sender ctx,
               \<lparr>receipt_id = (tx_hash ctx, ids_created ctx),
                content_id = item_id content,
                content_title = title content,
                price_paid = price content,
                purchaser = sender ctx,
                timestamp = clock_ms clock\<rparr>)]\<rparr>)"
  by (simp add: purchase_and_grant_access_def Let_def object_new_def uid_to_inner_def
      object_id_def timestamp_ms_def public_transfer_coin_def public_transfer_receipt_def
      emit_def)

lemmas scenario_defs = article_def generous_payment_def noon_def buyer_ctx_def start_ledger_def

text \<open>
  C1. A payment worth strictly less than the price aborts the call with
  \<open>EInsufficientPayment\<close> and the ledger commits nothing: the creator's balance and the
  buyer's receipts are what they were, and what commands bundled before the call had done
  is undone with it. A payment worth at least the price makes the call succeed, and a
  successful call mints exactly one receipt, owned by the sender.
\<close>

theorem purchase_atomic:
  "(coin_value payment < price content \<longrightarrow>
      purchase_and_grant_access content payment clock (ctx, l) = Inl EInsufficientPayment
      \<and> execute_entry (purchase_and_grant_access content payment clock) ctx l
          = (MoveAbort EInsufficientPayment, l)
      \<and> balance_of (snd (execute_entry (purchase_and_grant_access content payment clock) ctx l))
            (creator content) = balance_of l (creator content)
      \<and> receipts_of (snd (execute_entry (purchase_and_grant_access content payment clock) ctx l))
            (sender ctx) = receipts_of l (sender ctx)
      \<and> (\<forall>(earlier :: exec_state \<Rightarrow> u64 + exec_state) s. earlier (ctx, l) = Inr s \<longrightarrow>
            execute_entry (then_call earlier (purchase_and_grant_access content payment clock)) ctx l
              = (MoveAbort EInsufficientPayment, l)))
   \<and> (price content \<le> coin_value payment \<longrightarrow>
      (\<exists>l' r. execute_entry (purchase_and_grant_access content payment clock) ctx l = (Executed, l')
         \<and> receipts l' = receipts l @ [(sender ctx, r)]
         \<and> length (receipts l') = length (receipts l) + 1
         \<and> receipts_of l' (sender ctx) = receipts_of l (sender ctx) @ [r]))"
proof (intro conjI impI)
  assume short: "coin_value payment < price content"
  then show aborts: "purchase_and_grant_access content payment clock (ctx, l) = Inl EInsufficientPayment"
    by (rule purchase_aborts)
  then show rolled_back: "execute_entry (purchase_and_grant_access content payment clock) ctx l
                            = (MoveAbort EInsufficientPayment, l)"
    by (simp add: execute_entry_def)
  then show "balance_of (snd (execute_entry (purchase_and_grant_access content payment clock) ctx l))
               (creator content) = balance_of l (creator content)"
    and "receipts_of (snd (execute_entry (purchase_and_grant_access content payment clock) ctx l))
               (sender ctx) = receipts_of l (sender ctx)"
    by simp_all
  show "\<forall>(earlier :: exec_state \<Rightarrow> u64 + exec_state) s. earlier (ctx, l) = Inr s \<longrightarrow>
          execute_entry (then_call earlier (purchase_and_grant_access content payment clock)) ctx l
            = (MoveAbort EInsufficientPayment, l)"
  proof (intro allI impI)
    fix earlier :: "exec_state \<Rightarrow> u64 + exec_state" and s
    assume "earlier (ctx, l) = Inr s"
    moreover have "purchase_and_grant_access content payment clock s = Inl EInsufficientPayment"
      using short by (cases s) (simp add: purchase_aborts)
    ultimately show "execute_entry (then_call earlier (purchase_and_grant_access content payment clock))
                       ctx l = (MoveAbort EInsufficientPayment, l)"
      by (simp add: execute_entry_def then_call_def)
  qed
next
  assume "price content \<le> coin_value payment"
  then show "\<exists>l' r. execute_entry (purchase_and_grant_access content payment clock) ctx l = (Executed, l')
         \<and> receipts l' = receipts l @ [(sender ctx, r)]
         \<and> length (receipts l') = length (receipts l) + 1
         \<and> receipts_of l' (sender ctx) = receipts_of l (sender ctx) @ [r]"
    by (simp add: purchase_succeeds execute_entry_def receipts_of_def)
qed

text \<open>The scenario: the short payment aborts and changes nothing, also when the same
  transaction first publishes another item; the exact payment executes and leaves one
  receipt.\<close>

theorem purchase_atomic_witness:
  "execute_entry (purchase_and_grant_access article short_payment noon) buyer_ctx start_ledger
     = (MoveAbort EInsufficientPayment, start_ledger)
   \<and> balance_of (snd (execute_entry (purchase_and_grant_access article short_payment noon)
                        buyer_ctx start_ledger)) 12 = 40
   \<and> execute_entry
        (then_call (create_content ''Short Note'' ''A note'' 5 ''https://content.example.com/note-2'')
           (purchase_and_grant_access article short_payment noon)) buyer_ctx start_ledger
     = (MoveAbort EInsufficientPayment, start_ledger)
   \<and> fst (execute_entry (purchase_and_grant_access article exact_payment noon) buyer_ctx start_ledger)
     = Executed
   \<and> length (receipts (snd (execute_entry (purchase_and_grant_access article exact_payment noon)
                               buyer_ctx start_ledger))) = 1"
proof -
  have short: "coin_value short_payment < price article"
    and exact: "price article \<le> coin_value exact_payment"
    by (simp_all add: article_def short_payment_def exact_payment_def coin_value_def)
  have published: "\<exists>s. create_content ''Short Note'' ''A note'' 5
                          ''https://content.example.com/note-2'' (buyer_ctx, start_ledger) = Inr s"
    by (simp add: create_content_def Let_def object_new_def)
  have worth: "balance_of start_ledger 12 = 40"
    by (simp add: start_ledger_def balance_of_def coins_of_def coin_value_def)
  have none_yet: "receipts start_ledger = []"
    by (simp add: start_ledger_def)
  from purchase_atomic [of short_payment article noon buyer_ctx start_ledger] short published worth
  have "execute_entry (purchase_and_grant_access article short_payment noon) buyer_ctx start_ledger
          = (MoveAbort EInsufficientPayment, start_ledger)"
    and "balance_of (snd (execute_entry (purchase_and_grant_access article short_payment noon)
                        buyer_ctx start_ledger)) 12 = 40"
    and "execute_entry
        (then_call (create_content ''Short Note'' ''A note'' 5 ''https://content.example.com/note-2'')
           (purchase_and_grant_access article short_payment noon)) buyer_ctx start_ledger
     = (MoveAbort EInsufficientPayment, start_ledger)"
    by auto
  moreover
  from purchase_atomic [of exact_payment article noon buyer_ctx start_ledger] exact none_yet
  have "fst (execute_entry (purchase_and_grant_access article exact_payment noon) buyer_ctx start_ledger)
          = Executed"
    and "length (receipts (snd (execute_entry (purchase_and_grant_access article exact_payment noon)
                               buyer_ctx start_ledger))) = 1"
    by auto
  ultimately show ?thesis
    by simp
qed

text \<open>
  C2. A successful call mints a receipt whose \<open>content_id\<close> is the identity of the item,
  whose \<open>content_title\<close> is its title, whose \<open>price_paid\<close> is the item's price (not the
  value of the payment), whose \<open>purchaser\<close> is the sender and whose \<open>timestamp\<close> is the
  clock's, and transfers it to the sender.
\<close>

theorem receipt_fields:
  "purchase_and_grant_access content payment clock (ctx, l) = Inr (ctx', l') \<Longrightarrow>
   receipts l' = receipts l @
     [(sender ctx,
       \<lparr>receipt_id = (tx_hash ctx, ids_created ctx),
        content_id = object_id content,
        content_title = title content,
        price_paid = price content,
        purchaser = sender ctx,
        timestamp = timestamp_ms clock\<rparr>)]"
  by (auto simp add: purchase_and_grant_access_def Let_def object_new_def uid_to_inner_def
      public_transfer_coin_def public_transfer_receipt_def emit_def split: if_splits)

text \<open>The scenario with the generous payment: the receipt still records the price.\<close>

theorem receipt_fields_witness:
  "(case purchase_and_grant_access article generous_payment noon (buyer_ctx, start_ledger) of
      Inl code \<Rightarrow> False
    | Inr (ctx', l') \<Rightarrow>
        receipts l' =
          [(11, \<lparr>receipt_id = (9, 0), content_id = (7, 0), content_title = ''Premium Article'',
                 price_paid = 1000000000, purchaser = 11, timestamp = 1700000000000\<rparr>)])"
proof -
  obtain ctx' l' where
    run: "purchase_and_grant_access article generous_payment noon (buyer_ctx, start_ledger)
            = Inr (ctx', l')"
    by (simp add: purchase_succeeds scenario_defs coin_value_def)
  show ?thesis
    using receipt_fields [OF run] run
    by (simp add: scenario_defs object_id_def timestamp_ms_def)
qed

text \<open>
  C3. A successful call transfers the payment coin itself, whole, to the creator: the
  creator gains the coin's value, that is the price and the excess above it, and no
  other address receives a coin, so no change goes back to the sender.
\<close>

theorem payment_in_full:
  "purchase_and_grant_access content payment clock (ctx, l) = Inr (ctx', l') \<Longrightarrow>
   coins l' = coins l @ [(creator content, payment)]
   \<and> balance_of l' (creator content) = balance_of l (creator content) + unat (coin_value payment)
   \<and> unat (coin_value payment)
       = unat (price content) + unat (coin_value payment - price content)
   \<and> (\<forall>a. a \<noteq> creator content \<longrightarrow> coins_of l' a = coins_of l a)"
  by (auto simp add: purchase_and_grant_access_def Let_def object_new_def uid_to_inner_def
      public_transfer_coin_def public_transfer_receipt_def emit_def balance_of_def coins_of_def
      unat_sub word_le_nat_alt split: if_splits)

text \<open>The scenario with the generous payment: the creator holds all of it, the buyer no
  coin.\<close>

theorem payment_in_full_witness:
  "(case purchase_and_grant_access article generous_payment noon (buyer_ctx, start_ledger) of
      Inl code \<Rightarrow> False
    | Inr (ctx', l') \<Rightarrow>
        balance_of l' 12 = 40 + 1500000000 \<and> coins_of l' 11 = []
        \<and> coins l' = [(12, \<lparr>coin_id = (6, 0), balance = 40\<rparr>), (12, generous_payment)])"
proof -
  obtain ctx' l' where
    run: "purchase_and_grant_access article generous_payment noon (buyer_ctx, start_ledger)
            = Inr (ctx', l')"
    by (simp add: purchase_succeeds scenario_defs coin_value_def)
  show ?thesis
    using payment_in_full [OF run] run
    by (simp add: scenario_defs coin_value_def balance_of_def coins_of_def)
qed

section \<open>Properties of the SDK\<close>

subsection \<open>Promises\<close>

lemmas sdk_scenario_defs = testnet_def offline_def sponsor_key_def sponsored_server_def
  plain_server_def offline_server_def testnet_client_def offline_client_def
  createX402Server_def new_X402Server_def createX402Client_def new_X402Client_def js_or_def
  receipt_object_def

lemma await_resolved: "await (tr, Inr v) k = (tr @ fst (k v), snd (k v))"
  by (simp add: await_def)

lemma await_rejected: "await (tr, Inl e) k = (tr, Inl e)"
  by (simp add: await_def)

lemma try_catch_resolved: "try_catch (tr, Inr v) handler = (tr, Inr v)"
  by (simp add: try_catch_def)

lemma try_catch_rejected:
  "try_catch (tr, Inl e) handler = (tr @ fst (handler e), snd (handler e))"
  by (simp add: try_catch_def)

lemmas promise_simps = await_resolved await_rejected try_catch_resolved try_catch_rejected
  request_def

lemma await_request:
  "await (request e answer) k =
     (case answer of Inl err \<Rightarrow> ([e], Inl err) | Inr v \<Rightarrow> (e # fst (k v), snd (k v)))"
  by (simp add: await_def request_def split: sum.splits)

subsection \<open>Base64\<close>








subsection \<open>The purchase envelope\<close>







subsection \<open>Sponsoring and executing\<close>

text \<open>
  C6. On a server without a sponsor keypair \<open>sponsorAndExecute\<close> rejects with the
  sponsor-not-configured error and has called nothing: no transaction was signed and none
  was submitted.
\<close>

theorem sponsor_not_configured:
  "sponsorKeypair srv = None \<Longrightarrow>
   sponsorAndExecute srv transactionBytes' clientSignature clientPublicKey
     = ([], Inl SponsorNotConfigured)"
  by (simp add: sponsorAndExecute_def SponsorNotConfigured_def)

text \<open>The server without a sponsor, handed the note's envelope.\<close>

theorem sponsor_not_configured_witness:
  "sponsorKeypair plain_server = None
   \<and> sponsorAndExecute plain_server note_envelope ''buyer-sig'' ''buyer-key''
       = ([], Inl (Error ''Sponsor keypair required for transaction execution''))"
proof -
  have none: "sponsorKeypair plain_server = None"
    by (simp add: sdk_scenario_defs)
  show ?thesis
    using none sponsor_not_configured [OF none, of note_envelope "''buyer-sig''" "''buyer-key''"]
    by (simp add: SponsorNotConfigured_def)
qed

text \<open>
  C4, as the code has it. \<open>sponsorAndExecute\<close> is given the envelope bytes, the buyer's
  signature and public key, and no content id. On a server with a sponsor keypair whose
  signing succeeds it signs the decoded bytes with the sponsor key and submits exactly
  those bytes under the two signatures, whatever envelope they encode; it resolves to the
  ledger's digest and status, or rejects with the ledger's error after logging it.
\<close>

theorem sponsorAndExecute_unchecked:
  assumes "sponsorKeypair srv = Some kp"
    and "signTransaction kp (from_base64 transactionBytes') = Inr sponsorSig"
  shows "fst (sponsorAndExecute srv transactionBytes' clientSignature clientPublicKey) =
           SignTransaction (toSuiAddress kp) (from_base64 transactionBytes')
           # ExecuteTransactionBlock (from_base64 transactionBytes') [clientSignature, sponsorSig]
           # (case executeTransactionBlock (client srv) (from_base64 transactionBytes')
                     [clientSignature, sponsorSig] of
                Inl e \<Rightarrow> [ConsoleError ''Transaction execution failed:'' e]
              | Inr result \<Rightarrow> [])
         \<and> snd (sponsorAndExecute srv transactionBytes' clientSignature clientPublicKey) =
           (case executeTransactionBlock (client srv) (from_base64 transactionBytes')
                   [clientSignature, sponsorSig] of
              Inl e \<Rightarrow> Inl e
            | Inr result \<Rightarrow>
                Inr \<lparr>result_digest = digest result,
                     status = (if effects_status result = Some ''success''
                               then ''success'' else ''failure''),
                     result_effects = effects result\<rparr>)
         \<and> submitted (sponsorAndExecute srv transactionBytes' clientSignature clientPublicKey)"
  using assms
  by (simp add: sponsorAndExecute_def submitted_def try_catch_def await_request Let_def
      split: sum.splits)

text \<open>Three arbitrary bytes are signed and submitted by the server with a sponsor.\<close>

theorem sponsorAndExecute_unchecked_witness:
  "sponsorAndExecute sponsored_server ''AQID'' ''buyer-sig'' ''buyer-key'' =
     ([SignTransaction ''0x50'' [1, 2, 3],
       ExecuteTransactionBlock [1, 2, 3] [''buyer-sig'', ''sponsor-signature'']],
      Inr \<lparr>result_digest = ''0xD1'', status = ''success'',
           result_effects = Some \<lparr>exec_status = Some ''success''\<rparr>\<rparr>)"
proof -
  have decoded: "from_base64 ''AQID'' = [1, 2, 3]"
    by code_simp
  have key: "sponsorKeypair sponsored_server = Some sponsor_key"
    by (simp add: sdk_scenario_defs)
  have signed: "signTransaction sponsor_key (from_base64 ''AQID'') = Inr ''sponsor-signature''"
    by (simp add: sponsor_key_def)
  show ?thesis
    using sponsorAndExecute_unchecked [OF key signed, of "''buyer-sig''" "''buyer-key''"] decoded
    by (simp add: prod_eq_iff sdk_scenario_defs effects_status_def)
qed

text \<open>
  C4 as stated says an envelope built for another content item is not submitted. The
  envelope the server builds for the note (price 5) is not the one it builds for the
  article (price 1000000000), and \<open>sponsorAndExecute\<close> submits it all the same: nothing
  ties the call to the article.
\<close>

theorem other_envelope_is_submitted:
  "rederives sponsored_server note_meta ''0xB0B'' note_envelope
   \<and> \<not> rederives sponsored_server article_meta ''0xB0B'' note_envelope
   \<and> submitted (sponsorAndExecute sponsored_server note_envelope ''buyer-sig'' ''buyer-key'')"
  by code_simp

subsection \<open>Access checks\<close>

lemma hasAccess_eq:
  "hasAccess srv a contentId' =
     (case getOwnedObjects (client srv) a (AccessReceipt_type (packageId srv) (moduleName srv)) of
        Inl e \<Rightarrow>
          ([GetOwnedObjects a (AccessReceipt_type (packageId srv) (moduleName srv)),
            ConsoleError ''Access check failed:'' e], Inr False)
      | Inr objs \<Rightarrow>
          ([GetOwnedObjects a (AccessReceipt_type (packageId srv) (moduleName srv))],
           Inr (list_ex (\<lambda>obj. if is_moveObject obj
                               then strict_equals (map_of (object_fields obj) ''content_id'') contentId'
                               else False) objs)))"
  by (cases "getOwnedObjects (client srv) a (AccessReceipt_type (packageId srv) (moduleName srv))")
     (simp_all add: hasAccess_def Let_def promise_simps)

lemma getAccessReceipts_eq:
  "getAccessReceipts cl a =
     (case getOwnedObjects (c_client cl) a (AccessReceipt_type (c_packageId cl) (c_moduleName cl)) of
        Inl e \<Rightarrow>
          ([GetOwnedObjects a (AccessReceipt_type (c_packageId cl) (c_moduleName cl)),
            ConsoleError ''Failed to fetch access receipts:'' e], Inr [])
      | Inr objs \<Rightarrow>
          ([GetOwnedObjects a (AccessReceipt_type (c_packageId cl) (c_moduleName cl))],
           Inr (map receipt_data (filter is_moveObject objs))))"
  by (cases "getOwnedObjects (c_client cl) a (AccessReceipt_type (c_packageId cl) (c_moduleName cl))")
     (simp_all add: getAccessReceipts_def Let_def promise_simps)

lemma checkAccess_eq:
  "checkAccess cl a contentId' =
     (case getOwnedObjects (c_client cl) a (AccessReceipt_type (c_packageId cl) (c_moduleName cl)) of
        Inl e \<Rightarrow>
          ([GetOwnedObjects a (AccessReceipt_type (c_packageId cl) (c_moduleName cl)),
            ConsoleError ''Failed to fetch access receipts:'' e], Inr False)
      | Inr objs \<Rightarrow>
          ([GetOwnedObjects a (AccessReceipt_type (c_packageId cl) (c_moduleName cl))],
           Inr (list_ex (\<lambda>receipt. contentId receipt = contentId')
                  (map receipt_data (filter is_moveObject objs)))))"
  by (cases "getOwnedObjects (c_client cl) a (AccessReceipt_type (c_packageId cl) (c_moduleName cl))")
     (simp_all add: checkAccess_def getAccessReceipts_eq promise_simps)

text \<open>
  C5, as the code has it. \<open>hasAccess\<close> and \<open>checkAccess\<close> never reject. When the
  ownership query fails they log the error to the console and resolve to \<open>false\<close>, the
  value they also give when no matching receipt is owned.
\<close>

theorem query_failure_reads_as_no_access:
  "(getOwnedObjects (client srv) ownerAddress
        (AccessReceipt_type (packageId srv) (moduleName srv)) = Inl e \<longrightarrow>
      hasAccess srv ownerAddress contentId' =
        ([GetOwnedObjects ownerAddress (AccessReceipt_type (packageId srv) (moduleName srv)),
          ConsoleError ''Access check failed:'' e], Inr False))
   \<and> (getOwnedObjects (c_client cl) userAddress
        (AccessReceipt_type (c_packageId cl) (c_moduleName cl)) = Inl e' \<longrightarrow>
      checkAccess cl userAddress contentId' =
        ([GetOwnedObjects userAddress (AccessReceipt_type (c_packageId cl) (c_moduleName cl)),
          ConsoleError ''Failed to fetch access receipts:'' e'], Inr False))
   \<and> (\<exists>b. snd (hasAccess srv ownerAddress contentId') = Inr b)
   \<and> (\<exists>b. snd (checkAccess cl userAddress contentId') = Inr b)"
  by (auto simp add: hasAccess_eq checkAccess_eq split: sum.splits)

text \<open>Both checks against the ledger client whose requests fail.\<close>

theorem query_failure_reads_as_no_access_witness:
  "hasAccess offline_server ''0xB0B'' ''0xA1'' =
     ([GetOwnedObjects ''0xB0B'' ''0x402::content_access::AccessReceipt'',
       ConsoleError ''Access check failed:'' (Error ''fetch failed'')], Inr False)
   \<and> checkAccess offline_client ''0xB0B'' ''0xA1'' =
     ([GetOwnedObjects ''0xB0B'' ''0x402::content_access::AccessReceipt'',
       ConsoleError ''Failed to fetch access receipts:'' (Error ''fetch failed'')], Inr False)"
  using query_failure_reads_as_no_access
          [of offline_server "''0xB0B''" "Error ''fetch failed''" "''0xA1''"
              offline_client "''0xB0B''" "Error ''fetch failed''"]
  by (simp add: sdk_scenario_defs AccessReceipt_type_def)

text \<open>
  C5 as stated says a failed query is surfaced as an error and not returned as \<open>false\<close>.
  The check against the failing ledger client and the check for an address that owns no
  receipt resolve to the same value.
\<close>

theorem failed_query_not_surfaced:
  "snd (hasAccess offline_server ''0xB0B'' ''0xA1'') = Inr False
   \<and> snd (hasAccess plain_server ''0xC4'' ''0xA1'') = Inr False
   \<and> snd (hasAccess offline_server ''0xB0B'' ''0xA1'') = snd (hasAccess plain_server ''0xC4'' ''0xA1'')
   \<and> snd (checkAccess offline_client ''0xB0B'' ''0xA1'') = Inr False
   \<and> snd (checkAccess testnet_client ''0xC4'' ''0xA1'') = Inr False"
  by code_simp

lemma server_some:
  "list_ex (\<lambda>obj. if is_moveObject obj
                  then strict_equals (map_of (object_fields obj) ''content_id'') contentId'
                  else False) objs
   = list_ex (receipt_for contentId') objs"
  by (induction objs) (simp_all add: receipt_for_def strict_equals_def)

lemma client_some:
  "list_all content_id_is_string objs \<Longrightarrow>
   list_ex (\<lambda>receipt. contentId receipt = contentId') (map receipt_data (filter is_moveObject objs))
   = list_ex (receipt_for contentId') objs"
proof (induction objs)
  case Nil
  show ?case by simp
next
  case (Cons obj objs)
  then have rest: "list_all content_id_is_string objs"
    and this_one: "content_id_is_string obj"
    by simp_all
  show ?case
  proof (cases "is_moveObject obj")
    case False
    with Cons.IH [OF rest] show ?thesis
      by (simp add: receipt_for_def)
  next
    case True
    with this_one obtain s where "map_of (object_fields obj) ''content_id'' = Some (MString s)"
      by (auto simp add: content_id_is_string_def split: option.splits MoveValue.splits)
    with True Cons.IH [OF rest] show ?thesis
      by (auto simp add: receipt_for_def receipt_data_def js_String_def Let_def)
  qed
qed

text \<open>
  C10. A server and a client on the same ledger client, package and module send the same
  query. When it answers with owned receipts (each \<open>content_id\<close> rendered as a string, as
  the ledger renders an \<open>ID\<close>), both checks resolve to the same boolean: whether some owned
  receipt's \<open>content_id\<close> is the content id asked for. When it throws, both resolve to
  \<open>false\<close>.
\<close>

theorem access_checks_agree:
  assumes "c_client cl = client srv"
    and "c_packageId cl = packageId srv"
    and "c_moduleName cl = moduleName srv"
  shows "(getOwnedObjects (client srv) a (AccessReceipt_type (packageId srv) (moduleName srv))
            = Inr objs \<and> list_all content_id_is_string objs \<longrightarrow>
            snd (hasAccess srv a contentId') = Inr (list_ex (receipt_for contentId') objs)
            \<and> snd (checkAccess cl a contentId') = Inr (list_ex (receipt_for contentId') objs))
         \<and> (getOwnedObjects (client srv) a (AccessReceipt_type (packageId srv) (moduleName srv))
            = Inl e \<longrightarrow>
            snd (hasAccess srv a contentId') = Inr False
            \<and> snd (checkAccess cl a contentId') = Inr False)"
proof (intro conjI impI)
  assume q: "getOwnedObjects (client srv) a (AccessReceipt_type (packageId srv) (moduleName srv))
               = Inr objs \<and> list_all content_id_is_string objs"
  then show "snd (hasAccess srv a contentId') = Inr (list_ex (receipt_for contentId') objs)"
    by (simp add: hasAccess_eq server_some)
  from q assms show "snd (checkAccess cl a contentId') = Inr (list_ex (receipt_for contentId') objs)"
    by (simp add: checkAccess_eq client_some)
next
  assume q: "getOwnedObjects (client srv) a (AccessReceipt_type (packageId srv) (moduleName srv))
               = Inl e"
  then show "snd (hasAccess srv a contentId') = Inr False"
    by (simp add: hasAccess_eq)
  from q assms show "snd (checkAccess cl a contentId') = Inr False"
    by (simp add: checkAccess_eq)
qed

text \<open>The buyer's receipt is found for the article and not for the note, by both; both
  give \<open>false\<close> offline.\<close>

theorem access_checks_agree_witness:
  "snd (hasAccess plain_server ''0xB0B'' ''0xA1'') = Inr True
   \<and> snd (checkAccess testnet_client ''0xB0B'' ''0xA1'') = Inr True
   \<and> snd (hasAccess plain_server ''0xB0B'' ''0xA2'') = Inr False
   \<and> snd (checkAccess testnet_client ''0xB0B'' ''0xA2'') = Inr False
   \<and> snd (hasAccess offline_server ''0xB0B'' ''0xA1'') = Inr False
   \<and> snd (checkAccess offline_client ''0xB0B'' ''0xA1'') = Inr False"
proof -
  let ?objs = "[None, receipt_object ''0xR1'' ''0xA1'']"
  have same: "c_client testnet_client = client plain_server"
    "c_packageId testnet_client = packageId plain_server"
    "c_moduleName testnet_client = moduleName plain_server"
    by (simp_all add: sdk_scenario_defs)
  have same_off: "c_client offline_client = client offline_server"
    "c_packageId offline_client = packageId offline_server"
    "c_moduleName offline_client = moduleName offline_server"
    by (simp_all add: sdk_scenario_defs)
  have answer: "getOwnedObjects (client plain_server) ''0xB0B''
                  (AccessReceipt_type (packageId plain_server) (moduleName plain_server))
                = Inr ?objs \<and> list_all content_id_is_string ?objs"
    by (simp add: sdk_scenario_defs content_id_is_string_def object_fields_def is_moveObject_def)
  have failure: "getOwnedObjects (client offline_server) ''0xB0B''
                  (AccessReceipt_type (packageId offline_server) (moduleName offline_server))
                = Inl (Error ''fetch failed'')"
    by (simp add: sdk_scenario_defs)
  have found: "list_ex (receipt_for ''0xA1'') ?objs" "\<not> list_ex (receipt_for ''0xA2'') ?objs"
    by (simp_all add: receipt_for_def receipt_object_def object_fields_def is_moveObject_def)
  show ?thesis
    using access_checks_agree [OF same, of "''0xB0B''" ?objs "''0xA1''"] 
          access_checks_agree [OF same, of "''0xB0B''" ?objs "''0xA2''"]
          access_checks_agree [OF same_off, of "''0xB0B''" _ _ "Error ''fetch failed''"]
          answer failure found
    by simp
qed

subsection \<open>Waiting for confirmation\<close>

declare wait_loop.simps [simp del]

lemma wait_loop_settles:
  "snd (wait_loop cl env d T s now) \<in> {Inr True, Inr False, Inl ConfirmationTimeout}"
proof (induction cl env d T s now rule: wait_loop.induct)
  case (1 cl env d T s now)
  show ?case
  proof (cases "int now - int s < T")
    case False
    then show ?thesis
      by (subst wait_loop.simps) (simp add: ConfirmationTimeout_def)
  next
    case True
    show ?thesis
    proof (cases "poll_outcome (getTransactionBlock (c_client cl) d now)")
      case (Some b)
      with True show ?thesis
        by (subst wait_loop.simps) simp
    next
      case None
      with True "1.IH" [OF True None refl refl] show ?thesis
        by (subst wait_loop.simps) (simp add: Let_def)
    qed
  qed
qed

lemma wait_loop_polls:
  "int (polls (fst (wait_loop cl env d T s now))) * 1000 \<le> max 0 (int s + T - int now + 999)"
proof (induction cl env d T s now rule: wait_loop.induct)
  case (1 cl env d T s now)
  show ?case
  proof (cases "int now - int s < T")
    case False
    then show ?thesis
      by (subst wait_loop.simps) (simp add: polls_def)
  next
    case True
    show ?thesis
    proof (cases "poll_outcome (getTransactionBlock (c_client cl) d now)")
      case (Some b)
      with True show ?thesis
        by (subst wait_loop.simps) (simp add: polls_def)
    next
      case None
      with True "1.IH" [OF True None refl refl] show ?thesis
        by (subst wait_loop.simps) (simp add: Let_def polls_def)
    qed
  qed
qed

lemma wait_loop_effects:
  "set (fst (wait_loop cl env d T s now))
     \<subseteq> range DateNow \<union> {GetTransactionBlock d, SetTimeout 1000}"
proof (induction cl env d T s now rule: wait_loop.induct)
  case (1 cl env d T s now)
  show ?case
  proof (cases "int now - int s < T")
    case False
    then show ?thesis
      by (subst wait_loop.simps) simp
  next
    case True
    show ?thesis
    proof (cases "poll_outcome (getTransactionBlock (c_client cl) d now)")
      case (Some b)
      with True show ?thesis
        by (subst wait_loop.simps) simp
    next
      case None
      with True "1.IH" [OF True None refl refl] show ?thesis
        by (subst wait_loop.simps) (auto simp add: Let_def)
    qed
  qed
qed

lemma poll_time_step: "poll_time env t0 k \<le> poll_time env t0 (Suc k)"
  by (simp add: Let_def)

lemma poll_time_mono: "j \<le> k \<Longrightarrow> poll_time env t0 j \<le> poll_time env t0 k"
  by (rule lift_Suc_mono_le [of "poll_time env t0"]) (rule poll_time_step)

lemma wait_loop_reaches:
  assumes "in_time T t0 (poll_time env t0 k)"
    and "\<forall>i. j \<le> i \<and> i < k \<longrightarrow> seen cl d (poll_time env t0 i) = None"
    and "seen cl d (poll_time env t0 k) = Some b"
    and "j \<le> k"
  shows "snd (wait_loop cl env d T t0 (poll_time env t0 j)) = Inr b"
  using assms
proof (induction "k - j" arbitrary: j)
  case 0
  then have "j = k" by simp
  with 0 show ?case
    by (subst wait_loop.simps) (simp add: in_time_def seen_def)
next
  case (Suc n)
  then have less: "j < k" and next_le: "Suc j \<le> k" and diff: "n = k - Suc j"
    by simp_all
  have "poll_time env t0 j \<le> poll_time env t0 k"
    using Suc.prems(4) by (rule poll_time_mono)
  with Suc.prems(1) have guard: "int (poll_time env t0 j) - int t0 < T"
    by (simp add: in_time_def)
  from Suc.prems(2) less have pending: "poll_outcome (getTransactionBlock (c_client cl) d (poll_time env t0 j)) = None"
    by (simp add: seen_def)
  have later: "\<forall>i. Suc j \<le> i \<and> i < k \<longrightarrow> seen cl d (poll_time env t0 i) = None"
    using Suc.prems(2) by simp
  have "snd (wait_loop cl env d T t0 (poll_time env t0 (Suc j))) = Inr b"
    using Suc.hyps(1) [OF diff Suc.prems(1) later Suc.prems(3) next_le] .
  with guard pending show ?case
    by (subst wait_loop.simps) (simp add: Let_def)
qed

lemma wait_loop_times_out:
  "\<forall>k. in_time T t0 (poll_time env t0 k) \<longrightarrow> seen cl d (poll_time env t0 k) = None \<Longrightarrow>
   now = poll_time env t0 k \<Longrightarrow>
   snd (wait_loop cl env d T t0 now) = Inl ConfirmationTimeout"
proof (induction cl env d T t0 now arbitrary: k rule: wait_loop.induct)
  case (1 cl env d T s now)
  show ?case
  proof (cases "int now - int s < T")
    case False
    then show ?thesis
      by (subst wait_loop.simps) (simp add: ConfirmationTimeout_def)
  next
    case True
    with "1.prems" have pending: "poll_outcome (getTransactionBlock (c_client cl) d now) = None"
      by (simp add: in_time_def seen_def)
    have "now + rpc_latency env now + 1000 + timer_lag env (now + rpc_latency env now)
            = poll_time env s (Suc k)"
      using "1.prems"(2) by (simp add: Let_def)
    from "1.IH" [OF True pending refl refl "1.prems"(1) this] True pending show ?thesis
      by (subst wait_loop.simps) (simp add: Let_def)
  qed
qed

text \<open>
  C8, as the code has it. \<open>waitForTransaction\<close> always settles, in one of three ways:
  \<open>true\<close>, \<open>false\<close>, or the timeout error. It polls at most once per second of its
  timeout (30000 ms when none is given) and does nothing else but read the clock and
  pause for exactly one second after a poll that settled nothing. If a poll that starts
  before the deadline is the first to see success or failure, the result is \<open>true\<close> or
  \<open>false\<close> accordingly; if no poll before the deadline sees either, the result is the
  timeout error. Nothing else ends the loop.
\<close>

theorem confirmation_polling:
  "snd (waitForTransaction cl env d timeoutMs t0) \<in> {Inr True, Inr False, Inl ConfirmationTimeout}
   \<and> int (polls (fst (waitForTransaction cl env d timeoutMs t0))) * 1000
        \<le> max 0 ((case timeoutMs of None \<Rightarrow> 30000 | Some t \<Rightarrow> t) + 999)
   \<and> set (fst (waitForTransaction cl env d timeoutMs t0))
        \<subseteq> range DateNow \<union> {GetTransactionBlock d, SetTimeout 1000}
   \<and> (\<forall>k b. in_time (case timeoutMs of None \<Rightarrow> 30000 | Some t \<Rightarrow> t) t0 (poll_time env t0 k)
            \<and> (\<forall>i<k. seen cl d (poll_time env t0 i) = None)
            \<and> seen cl d (poll_time env t0 k) = Some b
          \<longrightarrow> snd (waitForTransaction cl env d timeoutMs t0) = Inr b)
   \<and> ((\<forall>k. in_time (case timeoutMs of None \<Rightarrow> 30000 | Some t \<Rightarrow> t) t0 (poll_time env t0 k)
            \<longrightarrow> seen cl d (poll_time env t0 k) = None)
        \<longrightarrow> snd (waitForTransaction cl env d timeoutMs t0) = Inl ConfirmationTimeout)"
proof -
  let ?T = "case timeoutMs of None \<Rightarrow> 30000 | Some t \<Rightarrow> t"
  let ?loop = "wait_loop cl env d ?T t0 t0"
  have unfold: "waitForTransaction cl env d timeoutMs t0 = (DateNow t0 # fst ?loop, snd ?loop)"
    by (simp add: waitForTransaction_def Let_def)
  have settles: "snd ?loop \<in> {Inr True, Inr False, Inl ConfirmationTimeout}"
    by (rule wait_loop_settles)
  have bounded: "int (polls (fst ?loop)) * 1000 \<le> max 0 (?T + 999)"
    using wait_loop_polls [of cl env d ?T t0 t0] by simp
  have effects: "set (fst ?loop) \<subseteq> range DateNow \<union> {GetTransactionBlock d, SetTimeout 1000}"
    by (rule wait_loop_effects)
  have reaches: "snd ?loop = Inr b"
    if "in_time ?T t0 (poll_time env t0 k)"
      and "\<forall>i<k. seen cl d (poll_time env t0 i) = None"
      and "seen cl d (poll_time env t0 k) = Some b" for k b
    using wait_loop_reaches [of ?T t0 env k 0 cl d b] that by simp
  have times_out: "snd ?loop = Inl ConfirmationTimeout"
    if "\<forall>k. in_time ?T t0 (poll_time env t0 k) \<longrightarrow> seen cl d (poll_time env t0 k) = None"
    using wait_loop_times_out [OF that, of t0 0] by simp
  have polls_cons: "polls (DateNow t0 # fst ?loop) = polls (fst ?loop)"
    by (simp add: polls_def)
  show ?thesis
    unfolding unfold fst_conv snd_conv polls_cons
    using settles bounded effects reaches times_out
    by (intro conjI allI impI) auto
qed

text \<open>The transaction that appears after 2500 ms is confirmed by the fourth poll, at
  3060 ms.\<close>

theorem confirmation_polling_witness:
  "snd (waitForTransaction testnet_client steady ''0xD1'' None 0) = Inr True
   \<and> polls (fst (waitForTransaction testnet_client steady ''0xD1'' None 0)) \<le> 30
   \<and> poll_time steady 0 3 = 3060"
proof -
  note facts = confirmation_polling [of testnet_client steady "''0xD1''" None 0]
  have p0: "seen testnet_client ''0xD1'' (poll_time steady 0 0) = None"
    by code_simp
  have p1: "seen testnet_client ''0xD1'' (poll_time steady 0 (Suc 0)) = None"
    by code_simp
  have p2: "seen testnet_client ''0xD1'' (poll_time steady 0 (Suc (Suc 0))) = None"
    by code_simp
  have p3: "seen testnet_client ''0xD1'' (poll_time steady 0 3) = Some True"
    by code_simp
  have t3: "in_time 30000 0 (poll_time steady 0 3)" "poll_time steady 0 3 = 3060"
    by code_simp+
  have pending: "\<forall>i<3. seen testnet_client ''0xD1'' (poll_time steady 0 i) = None"
    using p0 p1 p2 by (auto simp add: numeral_3_eq_3 less_Suc_eq)
  from facts have reach: "in_time 30000 0 (poll_time steady 0 3)
       \<and> (\<forall>i<3. seen testnet_client ''0xD1'' (poll_time steady 0 i) = None)
       \<and> seen testnet_client ''0xD1'' (poll_time steady 0 3) = Some True
     \<longrightarrow> snd (waitForTransaction testnet_client steady ''0xD1'' None 0) = Inr True"
    by simp
  from facts have "int (polls (fst (waitForTransaction testnet_client steady ''0xD1'' None 0))) * 1000
                     \<le> 30999"
    by simp
  then have few: "polls (fst (waitForTransaction testnet_client steady ''0xD1'' None 0)) \<le> 30"
    by linarith
  from reach t3 pending p3 few show ?thesis
    by simp
qed

text \<open>
  C8 as stated says the loop can be cancelled when the caller abandons the request. A
  caller that gives up at time 0 changes nothing: with a timeout of 3000 ms the loop
  still polls at 0, 1000 and 2000 ms and ends with the timeout error at 3000 ms.
\<close>

theorem polling_ignores_abandonment:
  "abandoned_at impatient = Some 0
   \<and> waitForTransaction offline_client impatient ''0xD1'' (Some 3000) 0 =
     ([DateNow 0,
       DateNow 0, GetTransactionBlock ''0xD1'', SetTimeout 1000,
       DateNow 1000, GetTransactionBlock ''0xD1'', SetTimeout 1000,
       DateNow 2000, GetTransactionBlock ''0xD1'', SetTimeout 1000,
       DateNow 3000],
      Inl (Error ''Transaction confirmation timeout''))"
  by code_simp

end
